theory Spec2Isabelle
  imports Main "HOL-Library.Word" "HOL-Library.Multiset"
begin

unbundle bit_operations_syntax

text \<open>
  The store of hartodb-go: the record codec, table files and ref sidecars, record locks,
  transactions, the cleanup worker and the query evaluator, each function as the Go
  source has it. A call that changes its receiver or the files returns them after the
  call; the clock and the global counters are arguments.
\<close>

section \<open>Go values, errors and the parts of the platform the store calls\<close>

type_synonym byte = "8 word"

text \<open>
  A \<open>float64\<close> is its IEEE-754 binary64 bit pattern: bit 63 the sign, bits 62..52 the
  biased exponent, bits 51..0 the fraction. Go's \<open>int\<close> is taken as 64 bits wide, and
  \<open>int64\<close> and \<open>uint64\<close> share the type \<open>64 word\<close> (read with \<open>sint\<close> or \<open>unat\<close>).
\<close>

type_synonym float64 = "64 word"

text \<open>The dynamic values an \<open>interface{}\<close> of the store holds.\<close>

datatype gvalue =
    GNil
  | GInt "64 word"
  | GInt64 "64 word"
  | GFloat64 float64
  | GString string
  | GBool bool

text \<open>
  Errors are what \<open>fmt.Errorf\<close> builds: the format string of the source and its
  arguments. \<open>OsError\<close> is an error handed back by package \<open>os\<close> for a path,
  \<open>JsonError\<close> one of \<open>json.Unmarshal\<close>, and \<open>RuntimePanic\<close> is a run-time panic of Go (index or slice bounds out of range), which
  is not an error value: it unwinds the caller.
\<close>

datatype error =
    RuntimePanic
  | OsError string
  | JsonError
  | Errorf string "fmtarg list"
and fmtarg =
    ArgS string
  | ArgU "64 word"
  | ArgE error

definition sq :: string where
  "sq = [CHR 0x27]"

subsection \<open>Table and field declarations (Table.go)\<close>

record Field =
  Name :: string
  Type :: string
  Length :: nat
  Constraints :: "string list"

definition StringT :: string where "StringT = ''string''"
definition IntT :: string where "IntT = ''int''"
definition FloatT :: string where "FloatT = ''float''"
definition BoolT :: string where "BoolT = ''bool''"
definition TimeID :: string where "TimeID = ''timeID''"

definition PrimaryKey :: string where "PrimaryKey = ''primary_key''"
definition NotNull :: string where "NotNull = ''not_null''"
definition Unique :: string where "Unique = ''unique''"

record Table =
  TableName :: string
  Fields :: "Field list"
  SchemaPath :: string

definition timePKField :: Field where
  "timePKField = \<lparr>Name = ''id'', Type = TimeID, Length = 8,
     Constraints = [PrimaryKey, NotNull, Unique]\<rparr>"

definition fileEnding :: string where
  "fileEnding = ''.htdb''"

subsection \<open>What the standard library and the platform decide\<close>

record 'r env =
  json_Unmarshal :: "byte list \<Rightarrow> Table option"
    \<comment> \<open>\<open>json.Unmarshal\<close> of a table configuration; \<open>None\<close> is a parse error\<close>
  float_to_uint64_impl :: "float64 \<Rightarrow> 64 word"
    \<comment> \<open>\<open>uint64(v)\<close> where the value does not fit: implementation-dependent in Go\<close>
  fmt_float64 :: "float64 \<Rightarrow> string"
    \<comment> \<open>\<open>fmt.Sprintf("%v", v)\<close> of a float64\<close>
  sort_large :: "('r \<Rightarrow> 'r \<Rightarrow> bool) \<Rightarrow> 'r list \<Rightarrow> 'r list"
    \<comment> \<open>\<open>sort.Slice\<close> on more than 12 elements (pattern-defeating quicksort)\<close>

subsection \<open>Floating point conversions of Go\<close>

definition f64_negative :: "float64 \<Rightarrow> bool" where
  "f64_negative v = bit v 63"

definition f64_exponent :: "float64 \<Rightarrow> 64 word" where
  "f64_exponent v = drop_bit 52 v AND 0x7FF"

definition f64_fraction :: "float64 \<Rightarrow> 64 word" where
  "f64_fraction v = v AND 0xFFFFFFFFFFFFF"

text \<open>
  \<open>uint64(v)\<close> for a float64 \<open>v\<close>: the fraction is discarded (truncation towards zero).
  With \<open>m\<close> the 53-bit significand and \<open>e\<close> the biased exponent, \<open>v\<close> is
  \<open>m * 2^(e - 1075)\<close>. Where the truncated value is no uint64 (NaN, infinities,
  \<open>v \<le> -1\<close>, \<open>v \<ge> 2^64\<close>) the result is the platform's.
\<close>

definition uint64_of_float64 :: "'r env \<Rightarrow> float64 \<Rightarrow> 64 word" where
  "uint64_of_float64 env v =
     (let e = f64_exponent v; m = f64_fraction v OR 0x10000000000000
      in if e < 1023 then 0
         else if e = 2047 \<or> f64_negative v \<or> 1087 \<le> e then float_to_uint64_impl env v
         else if e \<le> 1075 then drop_bit (unat (1075 - e)) m
         else push_bit (unat (e - 1075)) m)"

text \<open>The index of the highest bit set (0 for the word 0).\<close>

definition top_bit :: "64 word \<Rightarrow> nat" where
  "top_bit w = fold (\<lambda>i k. if bit w i then i else k) [0..<64] 0"

text \<open>\<open>float64(n)\<close> for a uint64 \<open>n\<close>: the nearest float64, ties to even.\<close>

definition float64_of_uint64 :: "64 word \<Rightarrow> float64" where
  "float64_of_uint64 n =
     (let k = top_bit n; e = push_bit 52 (of_nat k + 1023)
      in if n = 0 then 0
         else if k \<le> 52 then e + push_bit (52 - k) (n - push_bit k 1)
         else let s = k - 52; q = drop_bit s n; r = take_bit s n; h = push_bit (s - 1) 1;
                  q' = (if h < r \<or> (r = h \<and> bit q 0) then q + 1 else q)
              in e + (q' - 0x10000000000000))"

text \<open>\<open>float64(i)\<close> for a signed integer \<open>i\<close>.\<close>

definition float64_of_int :: "64 word \<Rightarrow> float64" where
  "float64_of_int i =
     (if bit i 63 then push_bit 63 1 OR float64_of_uint64 (- i) else float64_of_uint64 i)"

definition f64_isNaN :: "float64 \<Rightarrow> bool" where
  "f64_isNaN v = (f64_exponent v = 2047 \<and> f64_fraction v \<noteq> 0)"

text \<open>
  Comparison of floats that are not NaN is comparison of sign and magnitude; the two
  zeros are equal.
\<close>

definition f64_key :: "float64 \<Rightarrow> int" where
  "f64_key v = (let m = uint (take_bit 63 v) in if f64_negative v then - m else m)"

definition f64_eq :: "float64 \<Rightarrow> float64 \<Rightarrow> bool" where
  "f64_eq a b = (\<not> f64_isNaN a \<and> \<not> f64_isNaN b \<and> f64_key a = f64_key b)"

definition f64_lt :: "float64 \<Rightarrow> float64 \<Rightarrow> bool" where
  "f64_lt a b = (\<not> f64_isNaN a \<and> \<not> f64_isNaN b \<and> f64_key a < f64_key b)"

subsection \<open>Little-endian integers in a byte buffer (encoding/binary)\<close>

definition le_bytes :: "nat \<Rightarrow> 64 word \<Rightarrow> byte list" where
  "le_bytes n v = map (\<lambda>i. ucast (drop_bit (8 * i) v)) [0..<n]"

definition le_word :: "byte list \<Rightarrow> 64 word" where
  "le_word bs = foldr (\<lambda>b acc. ucast b OR push_bit 8 acc) bs 0"

text \<open>Writing \<open>bs\<close> into the buffer at \<open>off\<close>; the callers check the bounds.\<close>

definition put_at :: "byte list \<Rightarrow> nat \<Rightarrow> byte list \<Rightarrow> byte list" where
  "put_at data off bs = take off data @ bs @ drop (off + length bs) data"

text \<open>
  \<open>binary.LittleEndian.PutUint64(data[off:off+n], v)\<close>: the slice expression panics
  beyond the buffer, and \<open>PutUint64\<close> panics on a slice shorter than 8 bytes. The
  buffer of \<open>Serialize\<close> comes from \<open>make([]byte, recordSize)\<close>: its capacity is its
  length.
\<close>

definition PutUint64_at :: "byte list \<Rightarrow> nat \<Rightarrow> nat \<Rightarrow> 64 word \<Rightarrow> error + byte list" where
  "PutUint64_at data off n v =
     (if length data < off + n \<or> n < 8 then Inl RuntimePanic
      else Inr (put_at data off (le_bytes 8 v)))"

text \<open>
  A byte slice that is read is its bytes \<open>data\<close> and the bytes \<open>spare\<close> that follow them
  in the buffer, up to its capacity. An index expression \<open>data[i]\<close> is checked against the
  length, a slice expression \<open>data[i:j]\<close> against the capacity, and may read on into
  \<open>spare\<close>.
\<close>

definition slice_at :: "byte list \<Rightarrow> byte list \<Rightarrow> nat \<Rightarrow> nat \<Rightarrow> error + byte list" where
  "slice_at data spare off n =
     (if length data + length spare < off + n then Inl RuntimePanic
      else Inr (take n (drop off (data @ spare))))"

text \<open>\<open>binary.LittleEndian.Uint64(data[off:off+n])\<close>; \<open>Uint64\<close> panics on fewer than 8 bytes.\<close>

definition Uint64_at :: "byte list \<Rightarrow> byte list \<Rightarrow> nat \<Rightarrow> nat \<Rightarrow> error + 64 word" where
  "Uint64_at data spare off n =
     (case slice_at data spare off n of
        Inl err \<Rightarrow> Inl err
      | Inr b \<Rightarrow> if length b < 8 then Inl RuntimePanic else Inr (le_word (take 8 b)))"

section \<open>Records (Record.go)\<close>

record RecordMetadata =
  IsCurrent :: bool
  IsDeleted :: bool
  IsLocked :: bool
  TransactionID :: "64 word"

record FieldMetadata =
  IsNull :: bool

record Record =
  ID :: "64 word"
  Metadata :: RecordMetadata
  FieldsData :: "string \<rightharpoonup> gvalue"
  FieldsMeta :: "string \<rightharpoonup> FieldMetadata"
  RefOffsets :: "string \<rightharpoonup> (64 word \<times> 64 word)"

type_synonym renv = "Record env"

subsection \<open>The record codec\<close>

definition recordSize :: "Field list \<Rightarrow> nat" where
  "recordSize flds =
     12 + sum_list (map (\<lambda>f. Length f + 1) (filter (\<lambda>f. Name f \<noteq> ''id'') flds))"

definition metaByte :: "RecordMetadata \<Rightarrow> byte" where
  "metaByte m = (if IsCurrent m then 1 else 0) OR (if IsDeleted m then 2 else 0)
                OR (if IsLocked m then 4 else 0)"

text \<open>The \<open>switch field.Type\<close> of \<open>Serialize\<close>, writing one non-null value at \<open>offset\<close>.\<close>

definition write_value :: "renv \<Rightarrow> Record \<Rightarrow> Field \<Rightarrow> gvalue \<Rightarrow> byte list \<Rightarrow> nat
    \<Rightarrow> error + byte list" where
  "write_value env r field val data offset =
     (if Type field = TimeID then
        (case val of
           GInt64 v \<Rightarrow> PutUint64_at data offset (Length field) v
         | _ \<Rightarrow> Inl (Errorf ''field '%s' requires an int64 value'' [ArgS (Name field)]))
      else if Type field = IntT then
        (case val of
           GInt v \<Rightarrow> PutUint64_at data offset (Length field) v
         | GInt64 v \<Rightarrow> PutUint64_at data offset (Length field) v
         | _ \<Rightarrow> Inl (Errorf ''field '%s' requires an int or int64 value'' [ArgS (Name field)]))
      else if Type field = FloatT then
        (case val of
           GFloat64 v \<Rightarrow> PutUint64_at data offset (Length field) (uint64_of_float64 env v)
         | _ \<Rightarrow> Inl (Errorf ''field '%s' requires a float64 value'' [ArgS (Name field)]))
      else if Type field = StringT then
        (case val of
           GString v \<Rightarrow> Inr (put_at data offset (take (Length field) (map of_char v)))
         | _ \<Rightarrow> Inl (Errorf ''field '%s' requires a string value'' [ArgS (Name field)]))
      else if Type field = ''ref'' then
        (case RefOffsets r (Name field) of
           None \<Rightarrow> Inl (Errorf (''missing ref offsets for field '%s'' @ sq) [ArgS (Name field)])
         | Some (s, e) \<Rightarrow>
             (case PutUint64_at data offset 8 s of
                Inl err \<Rightarrow> Inl err
              | Inr data' \<Rightarrow> PutUint64_at data' (offset + 8) 8 e))
      else Inl (Errorf (''unsupported field type '%s'' @ sq) [ArgS (Type field)]))"

text \<open>The field loop of \<open>Serialize\<close>: the buffer and the running offset are its state.\<close>

fun write_fields :: "renv \<Rightarrow> Record \<Rightarrow> Field list \<Rightarrow> byte list \<Rightarrow> nat \<Rightarrow> error + byte list" where
  "write_fields env r [] data offset = Inr data"
| "write_fields env r (field # flds) data offset =
     (if Name field = ''id'' then write_fields env r flds data offset
      else
        let isNull = (case FieldsMeta r (Name field) of None \<Rightarrow> True | Some m \<Rightarrow> IsNull m);
            data1 = data[offset := (if isNull then 1 else 0)];
            offset1 = offset + 1
        in case FieldsData r (Name field) of
             None \<Rightarrow> write_fields env r flds data1 (offset1 + Length field)
           | Some val \<Rightarrow>
               if isNull then write_fields env r flds data1 (offset1 + Length field)
               else (case write_value env r field val data1 offset1 of
                       Inl err \<Rightarrow> Inl err
                     | Inr data2 \<Rightarrow> write_fields env r flds data2 (offset1 + Length field)))"

definition Serialize :: "renv \<Rightarrow> Record \<Rightarrow> Field list \<Rightarrow> error + byte list" where
  "Serialize env r flds =
     (let data = replicate (recordSize flds) 0;
          data = put_at data 0 (le_bytes 8 (ID r));
          data = data[8 := metaByte (Metadata r)];
          data = put_at data 9 (le_bytes 2 (TransactionID (Metadata r)));
          data = data[11 := ucast (drop_bit 16 (TransactionID (Metadata r)))]
      in write_fields env r flds data 12)"

text \<open>The \<open>switch field.Type\<close> of \<open>DeserializeRecord\<close>, reading one non-null value.\<close>

definition read_value :: "Record \<Rightarrow> Field \<Rightarrow> byte list \<Rightarrow> byte list \<Rightarrow> nat \<Rightarrow> error + Record" where
  "read_value record field data spare offset =
     (if Type field = TimeID \<or> Type field = IntT then
        (case Uint64_at data spare offset (Length field) of
           Inl err \<Rightarrow> Inl err
         | Inr v \<Rightarrow> Inr (record\<lparr>FieldsData := (FieldsData record)(Name field \<mapsto> GInt64 v)\<rparr>))
      else if Type field = FloatT then
        (case Uint64_at data spare offset (Length field) of
           Inl err \<Rightarrow> Inl err
         | Inr bits \<Rightarrow>
             Inr (record\<lparr>FieldsData :=
                    (FieldsData record)(Name field \<mapsto> GFloat64 (float64_of_uint64 bits))\<rparr>))
      else if Type field = StringT then
        (case slice_at data spare offset (Length field) of
           Inl err \<Rightarrow> Inl err
         | Inr str \<Rightarrow>
             Inr (record\<lparr>FieldsData := (FieldsData record)(Name field \<mapsto>
                    GString (map (\<lambda>b. char_of (unat b)) str))\<rparr>))
      else if Type field = ''ref'' then
        (case Uint64_at data spare offset 8 of
           Inl err \<Rightarrow> Inl err
         | Inr start \<Rightarrow>
             (case Uint64_at data spare (offset + 8) 8 of
                Inl err \<Rightarrow> Inl err
              | Inr end \<Rightarrow>
                  Inr (record\<lparr>RefOffsets := (RefOffsets record)(Name field \<mapsto> (start, end))\<rparr>)))
      else Inr record)"

text \<open>The field loop of \<open>DeserializeRecord\<close>; \<open>data[offset]\<close> panics beyond the length.\<close>

fun read_fields :: "Record \<Rightarrow> Field list \<Rightarrow> byte list \<Rightarrow> byte list \<Rightarrow> nat \<Rightarrow> error + Record" where
  "read_fields record [] data spare offset = Inr record"
| "read_fields record (field # flds) data spare offset =
     (if Name field = ''id'' then
        read_fields (record\<lparr>FieldsData := (FieldsData record)(''id'' \<mapsto> GInt64 (ID record)),
                            FieldsMeta := (FieldsMeta record)(''id'' \<mapsto> \<lparr>IsNull = False\<rparr>)\<rparr>)
          flds data spare offset
      else if length data \<le> offset then Inl RuntimePanic
      else
        let isNull = (data ! offset = 1);
            record1 = record\<lparr>FieldsMeta := (FieldsMeta record)(Name field \<mapsto> \<lparr>IsNull = isNull\<rparr>)\<rparr>;
            offset1 = offset + 1
        in if isNull then read_fields record1 flds data spare (offset1 + Length field)
           else (case read_value record1 field data spare offset1 of
                   Inl err \<Rightarrow> Inl err
                 | Inr record2 \<Rightarrow> read_fields record2 flds data spare (offset1 + Length field)))"

text \<open>
  \<open>DeserializeRecord\<close> on the slice \<open>data\<close> of a buffer that goes on with the bytes
  \<open>spare\<close>.
\<close>

definition DeserializeSlice :: "byte list \<Rightarrow> byte list \<Rightarrow> Field list \<Rightarrow> error + Record" where
  "DeserializeSlice data spare flds =
     (if length data < 12 then Inl (Errorf ''data too short to be a valid record'' [])
      else
        let mb = data ! 8;
            txID = le_word (take 2 (drop 9 data)) OR push_bit 16 (ucast (data ! 11));
            record = \<lparr>ID = le_word (take 8 data),
                      Metadata = \<lparr>IsCurrent = (mb AND 1 \<noteq> 0), IsDeleted = (mb AND 2 \<noteq> 0),
                                  IsLocked = (mb AND 4 \<noteq> 0), TransactionID = txID\<rparr>,
                      FieldsData = Map.empty, FieldsMeta = Map.empty, RefOffsets = Map.empty\<rparr>
        in read_fields record flds data spare 12)"

text \<open>\<open>DeserializeRecord\<close> on a buffer whose capacity is its length.\<close>

definition DeserializeRecord :: "byte list \<Rightarrow> Field list \<Rightarrow> error + Record" where
  "DeserializeRecord data flds = DeserializeSlice data [] flds"

section \<open>Files\<close>

text \<open>
  The data directory: a path names a file with its bytes or a directory, or nothing.
  A path is reached through the directories above it: where one of them is missing the
  path does not exist (\<open>ENOENT\<close>, the error that \<open>os.IsNotExist\<close> accepts), and where one
  of them is a file the error is \<open>ENOTDIR\<close>. Permissions and full disks are left out.
  Paths are taken clean (no repeated or trailing separator), where \<open>filepath.Join\<close> is
  concatenation with a separator.
\<close>

datatype node = File "byte list" | Dir

type_synonym FS = "string \<rightharpoonup> node"

datatype stat = Found node | ENOENT | ENOTDIR

text \<open>The directories above a path, outermost first; \<open>seen\<close> is the part read, reversed.\<close>

fun dirs_above :: "string \<Rightarrow> string \<Rightarrow> string list" where
  "dirs_above seen [] = []"
| "dirs_above seen (c # cs) =
     (if c = CHR ''/'' \<and> seen \<noteq> [] then rev seen # dirs_above (c # seen) cs
      else dirs_above (c # seen) cs)"

fun resolve :: "FS \<Rightarrow> string list \<Rightarrow> string \<Rightarrow> stat" where
  "resolve fs [] p = (case fs p of None \<Rightarrow> ENOENT | Some n \<Rightarrow> Found n)"
| "resolve fs (d # ds) p =
     (case fs d of
        None \<Rightarrow> ENOENT
      | Some (File bs) \<Rightarrow> ENOTDIR
      | Some Dir \<Rightarrow> resolve fs ds p)"

definition os_Stat :: "FS \<Rightarrow> string \<Rightarrow> stat" where
  "os_Stat fs p = resolve fs (dirs_above [] p) p"

definition parent :: "string \<Rightarrow> string" where
  "parent p = rev (drop 1 (dropWhile (\<lambda>c. c \<noteq> CHR ''/'') (rev p)))"

text \<open>A new entry can be made at a path whose parent is a directory and that is none itself.\<close>

definition can_create :: "FS \<Rightarrow> string \<Rightarrow> bool" where
  "can_create fs p = (os_Stat fs (parent p) = Found Dir \<and> os_Stat fs p \<noteq> Found Dir)"

definition os_ReadFile :: "FS \<Rightarrow> string \<Rightarrow> error + byte list" where
  "os_ReadFile fs p =
     (case os_Stat fs p of Found (File bs) \<Rightarrow> Inr bs | _ \<Rightarrow> Inl (OsError p))"

text \<open>
  The capacity of the buffer that \<open>os.ReadFile\<close> returns for a file of \<open>n\<close> bytes: it
  allocates one byte more than the size, and at least 512. The bytes after the content
  are zero.
\<close>

definition ReadFile_cap :: "nat \<Rightarrow> nat" where
  "ReadFile_cap n = max (n + 1) 512"

text \<open>\<open>os.Create\<close>: the file is created or truncated.\<close>

definition os_Create :: "FS \<Rightarrow> string \<Rightarrow> error + FS" where
  "os_Create fs p = (if can_create fs p then Inr (fs(p \<mapsto> File [])) else Inl (OsError p))"

text \<open>\<open>os.OpenFile(p, O_APPEND|O_WRONLY|O_CREATE)\<close>: the file is created when missing.\<close>

definition os_OpenAppend :: "FS \<Rightarrow> string \<Rightarrow> error + FS \<times> byte list" where
  "os_OpenAppend fs p =
     (case os_Stat fs p of
        Found (File bs) \<Rightarrow> Inr (fs, bs)
      | ENOENT \<Rightarrow> if can_create fs p then Inr (fs(p \<mapsto> File []), []) else Inl (OsError p)
      | _ \<Rightarrow> Inl (OsError p))"

definition os_Rename :: "FS \<Rightarrow> string \<Rightarrow> string \<Rightarrow> error + FS" where
  "os_Rename fs old new =
     (case os_Stat fs old of
        Found (File bs) \<Rightarrow>
          if can_create fs new then Inr ((fs(old := None))(new \<mapsto> File bs))
          else Inl (OsError new)
      | _ \<Rightarrow> Inl (OsError old))"

definition filepath_Join :: "string list \<Rightarrow> string" where
  "filepath_Join elems =
     (case filter (\<lambda>e. e \<noteq> []) elems of
        [] \<Rightarrow> []
      | e # es \<Rightarrow> e @ concat (map (\<lambda>x. ''/'' @ x) es))"

text \<open>
  \<open>fmt.Errorf("...: %v", err)\<close> on the way out of a call that failed. A panic is no
  error value and passes through unwrapped.
\<close>

definition wrap :: "string \<Rightarrow> fmtarg list \<Rightarrow> error \<Rightarrow> error" where
  "wrap fmt args e = (if e = RuntimePanic then RuntimePanic else Errorf fmt (args @ [ArgE e]))"

section \<open>Tables (Table.go)\<close>

definition tablePath :: "Table \<Rightarrow> string" where
  "tablePath t = SchemaPath t @ ''/'' @ TableName t @ fileEnding"

text \<open>The loop of \<open>WriteRecords\<close>, with the bytes written to the temporary file so far.\<close>

fun write_loop :: "renv \<Rightarrow> Field list \<Rightarrow> Record list \<Rightarrow> byte list \<Rightarrow> error option \<times> byte list" where
  "write_loop env flds [] written = (None, written)"
| "write_loop env flds (record # records) written =
     (case Serialize env record flds of
        Inl err \<Rightarrow> (Some (wrap ''failed to serialize record: %v'' [] err), written)
      | Inr data \<Rightarrow> write_loop env flds records (written @ data))"

definition WriteRecords :: "renv \<Rightarrow> FS \<Rightarrow> Table \<Rightarrow> Record list \<Rightarrow> error option \<times> FS" where
  "WriteRecords env fs t records =
     (let tempPath = tablePath t @ ''.temp''
      in case os_Create fs tempPath of
           Inl err \<Rightarrow> (Some (wrap ''failed to create temporary file: %v'' [] err), fs)
         | Inr fs1 \<Rightarrow>
             (case write_loop env (Fields t) records [] of
                (Some err, written) \<Rightarrow> (Some err, fs1(tempPath \<mapsto> File written))
              | (None, written) \<Rightarrow>
                  let fs2 = fs1(tempPath \<mapsto> File written)
                  in case os_Rename fs2 tempPath (tablePath t) of
                       Inl err \<Rightarrow> (Some (wrap ''failed to replace table file: %v'' [] err), fs2)
                     | Inr fs3 \<Rightarrow> (None, fs3)))"

text \<open>
  The loop of \<open>GetAllRecords\<close> over the bytes not yet parsed: a trailing partial record
  is skipped. A record is decoded from a slice of the file buffer, which goes on with the
  rest of the file and the spare bytes of the buffer.
\<close>

function parse_records :: "Field list \<Rightarrow> byte list \<Rightarrow> byte list \<Rightarrow> error + Record list" where
  "parse_records flds data spare =
     (if data = [] \<or> length data < recordSize flds then Inr []
      else case DeserializeSlice (take (recordSize flds) data)
                  (drop (recordSize flds) data @ spare) flds of
             Inl err \<Rightarrow> Inl (wrap ''failed to deserialize record: %v'' [] err)
           | Inr record \<Rightarrow>
               (case parse_records flds (drop (recordSize flds) data) spare of
                  Inl err \<Rightarrow> Inl err
                | Inr records \<Rightarrow> Inr (record # records)))"
  by pat_completeness auto
termination
  by (relation "measure (\<lambda>(flds, data, spare). length data)") (auto simp: recordSize_def)

declare parse_records.simps [simp del]

definition GetAllRecords :: "FS \<Rightarrow> Table \<Rightarrow> error + Record list" where
  "GetAllRecords fs t =
     (if os_Stat fs (tablePath t) = ENOENT then Inr []
      else case os_ReadFile fs (tablePath t) of
             Inl err \<Rightarrow> Inl (wrap ''failed to read table file: %v'' [] err)
           | Inr data \<Rightarrow>
               parse_records (Fields t) data
                 (replicate (ReadFile_cap (length data) - length data) 0))"

text \<open>\<open>strings.Split(s, sep)\<close> for a separator of one character.\<close>

fun split_on :: "char \<Rightarrow> string \<Rightarrow> string \<Rightarrow> string list" where
  "split_on c [] cur = [rev cur]"
| "split_on c (x # xs) cur =
     (if x = c then rev cur # split_on c xs [] else split_on c xs (x # cur))"

definition strings_Split :: "string \<Rightarrow> char \<Rightarrow> string list" where
  "strings_Split s c = split_on c s []"

definition GetTable :: "renv \<Rightarrow> FS \<Rightarrow> string \<Rightarrow> string \<Rightarrow> error + Table" where
  "GetTable env fs tableName mainPath =
     (let parts = strings_Split tableName (CHR '':'');
          (schemaName, tableNameOnly) =
             (if length parts > 1 then (parts ! 0, parts ! 1) else (''testSchema'', tableName));
          schemaPath = mainPath @ ''/'' @ schemaName;
          tableConfPath = schemaPath @ ''/'' @ tableNameOnly @ ''.conf'' @ fileEnding
      in if os_Stat fs schemaPath = ENOENT then
           Inl (Errorf (''schema '%s' does not exist'') [ArgS schemaName])
         else if os_Stat fs tableConfPath = ENOENT then
           Inl (Errorf (''table '%s' does not exist in schema '%s'' @ sq)
                  [ArgS tableNameOnly, ArgS schemaName])
         else case os_ReadFile fs tableConfPath of
                Inl err \<Rightarrow> Inl (wrap ''failed to read table configuration: %v'' [] err)
              | Inr tableConf \<Rightarrow>
                  (case json_Unmarshal env tableConf of
                     None \<Rightarrow> Inl (wrap ''failed to parse table configuration: %v'' [] JsonError)
                   | Some table \<Rightarrow> Inr (table\<lparr>SchemaPath := schemaPath\<rparr>)))"

section \<open>Record operations (Record.go)\<close>

definition NewRecord :: "64 word \<Rightarrow> (string \<rightharpoonup> gvalue) \<Rightarrow> Record" where
  "NewRecord rid data =
     \<lparr>ID = rid,
      Metadata = \<lparr>IsCurrent = True, IsDeleted = False, IsLocked = False, TransactionID = 0\<rparr>,
      FieldsData = [''id'' \<mapsto> GInt64 rid] ++ data,
      FieldsMeta = [''id'' \<mapsto> \<lparr>IsNull = False\<rparr>]
                     ++ (\<lambda>k. map_option (\<lambda>v. \<lparr>IsNull = (v = GNil)\<rparr>) (data k)),
      RefOffsets = Map.empty\<rparr>"

text \<open>
  \<open>Lock\<close> changes the record it is called on: the record after the call is returned
  beside the error.
\<close>

definition Lock :: "64 word \<Rightarrow> Record \<Rightarrow> error option \<times> Record" where
  "Lock transactionID r =
     (if IsLocked (Metadata r) \<and> TransactionID (Metadata r) \<noteq> transactionID then
        (Some (Errorf ''record is locked by another transaction: %d''
                 [ArgU (TransactionID (Metadata r))]), r)
      else (None, r\<lparr>Metadata := (Metadata r)\<lparr>IsLocked := True,
                                              TransactionID := transactionID\<rparr>\<rparr>))"

definition Unlock :: "Record \<Rightarrow> Record" where
  "Unlock r = r\<lparr>Metadata := (Metadata r)\<lparr>IsLocked := False, TransactionID := 0\<rparr>\<rparr>"

definition MarkDeleted :: "64 word \<Rightarrow> Record \<Rightarrow> error option \<times> Record" where
  "MarkDeleted transactionID r =
     (if IsLocked (Metadata r) \<and> TransactionID (Metadata r) \<noteq> transactionID then
        (Some (Errorf ''record is locked by another transaction: %d''
                 [ArgU (TransactionID (Metadata r))]), r)
      else (None, r\<lparr>Metadata := (Metadata r)\<lparr>IsDeleted := True\<rparr>\<rparr>))"

text \<open>\<open>Clone\<close> reads the clock for the new id: \<open>now\<close> is \<open>time.Now().UnixNano()\<close>.\<close>

definition Clone :: "64 word \<Rightarrow> 64 word \<Rightarrow> Record \<Rightarrow> error + Record" where
  "Clone now transactionID r =
     (if IsLocked (Metadata r) \<and> TransactionID (Metadata r) \<noteq> transactionID then
        Inl (Errorf ''record is locked by another transaction: %d''
               [ArgU (TransactionID (Metadata r))])
      else
        let newID = now
        in Inr \<lparr>ID = newID,
                Metadata = \<lparr>IsCurrent = False, IsDeleted = IsDeleted (Metadata r),
                            IsLocked = True, TransactionID = transactionID\<rparr>,
                FieldsData = (FieldsData r)(''id'' \<mapsto> GInt64 newID),
                FieldsMeta = (FieldsMeta r)(''id'' \<mapsto> \<lparr>IsNull = False\<rparr>),
                RefOffsets = RefOffsets r\<rparr>)"

definition refFilePath :: "string \<Rightarrow> string \<Rightarrow> string \<Rightarrow> string" where
  "refFilePath schema tableName fieldName =
     schema @ ''/'' @ tableName @ ''.'' @ fieldName @ ''.data'' @ fileEnding"

definition WriteRefData :: "FS \<Rightarrow> Record \<Rightarrow> string \<Rightarrow> string \<Rightarrow> string \<Rightarrow> string
    \<Rightarrow> error option \<times> FS \<times> Record" where
  "WriteRefData fs r schema tableName fieldName val =
     (let path = refFilePath schema tableName fieldName
      in case os_OpenAppend fs path of
           Inl err \<Rightarrow> (Some (wrap ''failed to open ref field file: %v'' [] err), fs, r)
         | Inr (fs1, old) \<Rightarrow>
             let start = of_nat (length old) :: 64 word
             in (None, fs1(path \<mapsto> File (old @ map of_char val)),
                 r\<lparr>RefOffsets := (RefOffsets r)(fieldName \<mapsto> (start, start + of_nat (length val)))\<rparr>))"

definition ReadRefData :: "FS \<Rightarrow> Record \<Rightarrow> string \<Rightarrow> string \<Rightarrow> string \<Rightarrow> error + string" where
  "ReadRefData fs r schema tableName fieldName =
     (case RefOffsets r fieldName of
        None \<Rightarrow> Inl (Errorf (''no ref offsets found for field '%s'' @ sq) [ArgS fieldName])
      | Some (s, e) \<Rightarrow>
          (case os_ReadFile fs (refFilePath schema tableName fieldName) of
             Inl err \<Rightarrow> Inl (wrap ''failed to read ref field file: %v'' [] err)
           | Inr data \<Rightarrow>
               if sint s < 0 \<or> int (length data) < sint e \<or> sint e < sint s then
                 Inl (Errorf (''invalid ref offsets for field '%s'' @ sq) [ArgS fieldName])
               else Inr (map (\<lambda>b. char_of (unat b)) (take (unat e - unat s) (drop (unat s) data)))))"

section \<open>Transactions (Transaction.go)\<close>

datatype TransactionStatus = TransactionActive | TransactionCommitted | TransactionRolledBack

text \<open>
  \<open>StagedRecords\<close> is kept in the order in which \<open>Commit\<close> ranges over it; \<open>db\<close> is
  the main path of the database the transaction belongs to. \<open>StartTime\<close> is left out:
  nothing reads it. The id is \<open>TxID\<close>, as a record has its \<open>ID\<close>.
\<close>

record Transaction =
  TxID :: "64 word"
  Status :: TransactionStatus
  LockedRecords :: "string \<rightharpoonup> 64 word"
  StagedRecords :: "(string \<times> Record list) list"
  db :: string

text \<open>\<open>atomic.AddUint64(&transactionCounter, 1)\<close>: the counter is passed and returned.\<close>

definition NewTransaction :: "string \<Rightarrow> 64 word \<Rightarrow> Transaction \<times> 64 word" where
  "NewTransaction mainPath transactionCounter =
     (\<lparr>TxID = transactionCounter + 1, Status = TransactionActive, LockedRecords = Map.empty,
       StagedRecords = [], db = mainPath\<rparr>, transactionCounter + 1)"

function digits :: "int \<Rightarrow> string" where
  "digits n = (if n < 10 then [char_of (48 + n)] else digits (n div 10) @ [char_of (48 + n mod 10)])"
  by pat_completeness auto
termination
  by (relation "measure nat") auto

declare digits.simps [simp del]

text \<open>\<open>%d\<close> of a signed integer.\<close>

definition show_int :: "int \<Rightarrow> string" where
  "show_int i = (if i < 0 then ''-'' @ digits (- i) else digits i)"

definition lockKey :: "Table \<Rightarrow> Record \<Rightarrow> string" where
  "lockKey t record = TableName t @ '':'' @ show_int (sint (ID record))"

definition lockRecordInternal :: "Transaction \<Rightarrow> Table \<Rightarrow> Record
    \<Rightarrow> error option \<times> Transaction \<times> Record" where
  "lockRecordInternal tx t record =
     (if Status tx \<noteq> TransactionActive then
        (Some (Errorf ''transaction is not active'' []), tx, record)
      else case Lock (TxID tx) record of
             (Some err, record') \<Rightarrow> (Some err, tx, record')
           | (None, record') \<Rightarrow>
               (None, tx\<lparr>LockedRecords := (LockedRecords tx)(lockKey t record \<mapsto> ID record)\<rparr>,
                record'))"

definition stage :: "string \<Rightarrow> Record \<Rightarrow> (string \<times> Record list) list
    \<Rightarrow> (string \<times> Record list) list" where
  "stage tableName r staged =
     (case map_of staged tableName of
        None \<Rightarrow> staged @ [(tableName, [r])]
      | Some _ \<Rightarrow> map (\<lambda>(k, rs). if k = tableName then (k, rs @ [r]) else (k, rs)) staged)"

text \<open>
  The loop of \<open>StageUpdate\<close> over the updates, in the order in which the map is ranged
  over. Writing a ref value appends to the sidecar, so the files are part of the state.
\<close>

fun apply_updates :: "FS \<Rightarrow> Table \<Rightarrow> Record \<Rightarrow> (string \<times> gvalue) list
    \<Rightarrow> error option \<times> FS \<times> Record" where
  "apply_updates fs t staging [] = (None, fs, staging)"
| "apply_updates fs t staging ((field, val) # updates) =
     (case find (\<lambda>f. Name f = field) (Fields t) of
        None \<Rightarrow>
          (Some (Errorf (''field '%s' does not exist in table '%s'' @ sq)
                   [ArgS field, ArgS (TableName t)]), fs, staging)
      | Some fieldDef \<Rightarrow>
          if Type fieldDef = ''ref'' then
            (if val = GNil then
               apply_updates fs t
                 (staging\<lparr>FieldsMeta := (FieldsMeta staging)(field \<mapsto> \<lparr>IsNull = True\<rparr>),
                          FieldsData := (FieldsData staging)(field := None),
                          RefOffsets := (RefOffsets staging)(field := None)\<rparr>) updates
             else case val of
                    GString strValue \<Rightarrow>
                      (case WriteRefData fs staging (SchemaPath t) (TableName t) field strValue of
                         (Some err, fs', staging') \<Rightarrow> (Some err, fs', staging')
                       | (None, fs', staging') \<Rightarrow>
                           apply_updates fs' t
                             (staging'\<lparr>FieldsData := (FieldsData staging')(field \<mapsto> GString strValue),
                                       FieldsMeta := (FieldsMeta staging')(field \<mapsto> \<lparr>IsNull = False\<rparr>)\<rparr>)
                             updates)
                  | _ \<Rightarrow> (Some (Errorf ''field '%s' requires a string value'' [ArgS field]),
                          fs, staging))
          else if val = GNil then
            apply_updates fs t
              (staging\<lparr>FieldsMeta := (FieldsMeta staging)(field \<mapsto> \<lparr>IsNull = True\<rparr>),
                       FieldsData := (FieldsData staging)(field := None)\<rparr>) updates
          else
            apply_updates fs t
              (staging\<lparr>FieldsData := (FieldsData staging)(field \<mapsto> val),
                       FieldsMeta := (FieldsMeta staging)(field \<mapsto> \<lparr>IsNull = False\<rparr>)\<rparr>) updates)"

text \<open>
  The first steps of \<open>StageUpdate\<close> and \<open>StageDelete\<close>: lock the record unless this
  transaction holds its key already, then clone it.
\<close>

definition lock_and_clone :: "64 word \<Rightarrow> Transaction \<Rightarrow> Table \<Rightarrow> Record
    \<Rightarrow> (error + Record) \<times> Transaction \<times> Record" where
  "lock_and_clone now tx t record =
     (case (if LockedRecords tx (lockKey t record) = None then lockRecordInternal tx t record
            else (None, tx, record)) of
        (Some err, tx', record') \<Rightarrow> (Inl err, tx', record')
      | (None, tx', record') \<Rightarrow> (Clone now (TxID tx') record', tx', record'))"

text \<open>
  \<open>StageUpdate\<close> returns the staged clone or an error; the files, the transaction and
  the record passed in are changed by the call and returned after it.
\<close>

definition StageUpdate :: "FS \<Rightarrow> 64 word \<Rightarrow> Transaction \<Rightarrow> Table \<Rightarrow> Record
    \<Rightarrow> (string \<times> gvalue) list \<Rightarrow> (error + Record) \<times> FS \<times> Transaction \<times> Record" where
  "StageUpdate fs now tx t record updates =
     (if Status tx \<noteq> TransactionActive then
        (Inl (Errorf ''transaction is not active'' []), fs, tx, record)
      else case lock_and_clone now tx t record of
             (Inl err, tx', record') \<Rightarrow> (Inl err, fs, tx', record')
           | (Inr staging, tx', record') \<Rightarrow>
               (case apply_updates fs t staging updates of
                  (Some err, fs', _) \<Rightarrow> (Inl err, fs', tx', record')
                | (None, fs', staging') \<Rightarrow>
                    (Inr staging', fs',
                     tx'\<lparr>StagedRecords := stage (TableName t) staging' (StagedRecords tx')\<rparr>,
                     record')))"

definition StageDelete :: "64 word \<Rightarrow> Transaction \<Rightarrow> Table \<Rightarrow> Record
    \<Rightarrow> error option \<times> Transaction \<times> Record" where
  "StageDelete now tx t record =
     (if Status tx \<noteq> TransactionActive then
        (Some (Errorf ''transaction is not active'' []), tx, record)
      else case lock_and_clone now tx t record of
             (Inl err, tx', record') \<Rightarrow> (Some err, tx', record')
           | (Inr staging, tx', record') \<Rightarrow>
               (None,
                tx'\<lparr>StagedRecords :=
                      stage (TableName t)
                        (staging\<lparr>Metadata := (Metadata staging)\<lparr>IsDeleted := True\<rparr>\<rparr>)
                        (StagedRecords tx')\<rparr>,
                record'))"

text \<open>The loop of \<open>StageInsert\<close> over the ref fields of the table.\<close>

fun insert_refs :: "FS \<Rightarrow> Table \<Rightarrow> (string \<rightharpoonup> gvalue) \<Rightarrow> Record \<Rightarrow> Field list
    \<Rightarrow> error option \<times> FS \<times> Record" where
  "insert_refs fs t data record [] = (None, fs, record)"
| "insert_refs fs t data record (field # flds) =
     (if Type field = ''ref'' then
        (case data (Name field) of
           None \<Rightarrow> insert_refs fs t data record flds
         | Some GNil \<Rightarrow> insert_refs fs t data record flds
         | Some (GString strValue) \<Rightarrow>
             (case WriteRefData fs record (SchemaPath t) (TableName t) (Name field) strValue of
                (Some err, fs', record') \<Rightarrow> (Some err, fs', record')
              | (None, fs', record') \<Rightarrow> insert_refs fs' t data record' flds)
         | Some _ \<Rightarrow>
             (Some (Errorf ''field '%s' requires a string value'' [ArgS (Name field)]), fs, record))
      else insert_refs fs t data record flds)"

text \<open>
  \<open>StageInsert\<close>: \<open>now\<close> is the clock and \<open>recordIDCounter\<close> the global counter, which
  is returned after the call.
\<close>

definition StageInsert :: "FS \<Rightarrow> 64 word \<Rightarrow> 64 word \<Rightarrow> Transaction \<Rightarrow> Table
    \<Rightarrow> (string \<rightharpoonup> gvalue) \<Rightarrow> (error + Record) \<times> FS \<times> 64 word \<times> Transaction" where
  "StageInsert fs recordIDCounter now tx t data =
     (if Status tx \<noteq> TransactionActive then
        (Inl (Errorf ''transaction is not active'' []), fs, recordIDCounter, tx)
      else
        let rid = now + (recordIDCounter + 1);
            record = NewRecord rid data;
            record = record\<lparr>Metadata := (Metadata record)\<lparr>IsLocked := True,
                                                           TransactionID := TxID tx\<rparr>\<rparr>
        in case insert_refs fs t data record (Fields t) of
             (Some err, fs', _) \<Rightarrow> (Inl err, fs', recordIDCounter + 1, tx)
           | (None, fs', record') \<Rightarrow>
               (Inr record', fs', recordIDCounter + 1,
                tx\<lparr>StagedRecords := stage (TableName t) record' (StagedRecords tx)\<rparr>))"

text \<open>
  \<open>==\<close> on two \<open>interface{}\<close> values, as \<open>Commit\<close> uses it on the ids: a key that is
  missing reads as nil; the dynamic types must be the same.
\<close>

definition lookup_nil :: "(string \<rightharpoonup> gvalue) \<Rightarrow> string \<Rightarrow> gvalue" where
  "lookup_nil m k = (case m k of None \<Rightarrow> GNil | Some v \<Rightarrow> v)"

definition iface_eq :: "gvalue \<Rightarrow> gvalue \<Rightarrow> bool" where
  "iface_eq a b = (case (a, b) of (GFloat64 x, GFloat64 y) \<Rightarrow> f64_eq x y | _ \<Rightarrow> a = b)"

text \<open>The inner and the outer loop of \<open>Commit\<close> over the existing records.\<close>

definition demote_for :: "Record \<Rightarrow> Record list \<Rightarrow> Record list" where
  "demote_for staged existingRecords =
     map (\<lambda>existing.
            if iface_eq (lookup_nil (FieldsData existing) ''id'')
                        (lookup_nil (FieldsData staged) ''id'')
               \<and> \<not> IsDeleted (Metadata staged)
            then existing\<lparr>Metadata := (Metadata existing)\<lparr>IsCurrent := False\<rparr>\<rparr>
            else existing) existingRecords"

fun demote_all :: "Record list \<Rightarrow> Record list \<Rightarrow> Record list" where
  "demote_all [] existingRecords = existingRecords"
| "demote_all (staged # records) existingRecords =
     demote_all records (demote_for staged existingRecords)"

definition mark_committed :: "Record \<Rightarrow> Record" where
  "mark_committed record =
     record\<lparr>Metadata := (Metadata record)\<lparr>IsCurrent := True, IsLocked := False,
                                            TransactionID := 0\<rparr>\<rparr>"

text \<open>
  The loop of \<open>Commit\<close> over the tables with staged records. The staged records are
  changed in place, so the staged lists are returned as the loop leaves them.
\<close>

fun commit_tables :: "renv \<Rightarrow> FS \<Rightarrow> string \<Rightarrow> (string \<times> Record list) list
    \<Rightarrow> error option \<times> FS \<times> (string \<times> Record list) list" where
  "commit_tables env fs mainPath [] = (None, fs, [])"
| "commit_tables env fs mainPath ((tableName, records) # rest) =
     (case GetTable env fs tableName mainPath of
        Inl err \<Rightarrow>
          (Some (wrap ''failed to get table '%s': %v'' [ArgS tableName] err), fs,
           (tableName, records) # rest)
      | Inr t \<Rightarrow>
          (case GetAllRecords fs t of
             Inl err \<Rightarrow>
               (Some (wrap ''failed to get existing records for table '%s': %v''
                        [ArgS tableName] err), fs, (tableName, records) # rest)
           | Inr existingRecords \<Rightarrow>
               let existingRecords' = demote_all records existingRecords;
                   records' = map mark_committed records
               in case WriteRecords env fs t (existingRecords' @ records') of
                    (Some err, fs') \<Rightarrow>
                      (Some (wrap ''failed to write records to table '%s': %v''
                               [ArgS tableName] err), fs', (tableName, records') # rest)
                  | (None, fs') \<Rightarrow>
                      (case commit_tables env fs' mainPath rest of
                         (res, fs'', rest') \<Rightarrow> (res, fs'', (tableName, records') # rest'))))"

definition Commit :: "renv \<Rightarrow> FS \<Rightarrow> Transaction \<Rightarrow> error option \<times> FS \<times> Transaction" where
  "Commit env fs tx =
     (if Status tx \<noteq> TransactionActive then
        (Some (Errorf ''transaction is not active'' []), fs, tx)
      else case commit_tables env fs (db tx) (StagedRecords tx) of
             (Some err, fs', staged') \<Rightarrow> (Some err, fs', tx\<lparr>StagedRecords := staged'\<rparr>)
           | (None, fs', staged') \<Rightarrow>
               (None, fs', tx\<lparr>StagedRecords := staged', Status := TransactionCommitted\<rparr>))"

section \<open>The cleanup worker (Cleanup.go)\<close>

definition isCurrentRecord :: "Record \<Rightarrow> bool" where
  "isCurrentRecord record = (IsCurrent (Metadata record) \<and> \<not> IsDeleted (Metadata record))"

text \<open>
  The second loop of \<open>cleanupRefField\<close>. Its state is the map from old to new offsets,
  the running offset and the bytes written to the temporary file; the records are
  changed in place and returned.
\<close>

fun compact_refs :: "byte list \<Rightarrow> string \<Rightarrow> Record list
    \<Rightarrow> ((64 word \<times> 64 word) \<rightharpoonup> (64 word \<times> 64 word)) \<Rightarrow> 64 word \<Rightarrow> byte list
    \<Rightarrow> Record list \<times> byte list" where
  "compact_refs refData fieldName [] offsetMap currentOffset written = ([], written)"
| "compact_refs refData fieldName (record # records) offsetMap currentOffset written =
     (case RefOffsets record fieldName of
        None \<Rightarrow>
          (case compact_refs refData fieldName records offsetMap currentOffset written of
             (records', written') \<Rightarrow> (record # records', written'))
      | Some offsets \<Rightarrow>
          (case offsetMap offsets of
             Some newOffsets \<Rightarrow>
               (case compact_refs refData fieldName records offsetMap currentOffset written of
                  (records', written') \<Rightarrow>
                    (record\<lparr>RefOffsets := (RefOffsets record)(fieldName \<mapsto> newOffsets)\<rparr> # records',
                     written'))
           | None \<Rightarrow>
               (case offsets of (start, end) \<Rightarrow>
                  if sint start < 0 \<or> int (length refData) < sint end \<or> sint end < sint start then
                    (case compact_refs refData fieldName records offsetMap currentOffset written of
                       (records', written') \<Rightarrow> (record # records', written'))
                  else
                    let data = take (unat end - unat start) (drop (unat start) refData);
                        newStart = currentOffset;
                        newEnd = newStart + of_nat (length data);
                        newOffsets = (newStart, newEnd)
                    in case compact_refs refData fieldName records
                              (offsetMap(offsets \<mapsto> newOffsets)) newEnd (written @ data) of
                         (records', written') \<Rightarrow>
                           (record\<lparr>RefOffsets := (RefOffsets record)(fieldName \<mapsto> newOffsets)\<rparr>
                              # records', written'))))"

definition cleanupRefField :: "FS \<Rightarrow> string \<Rightarrow> string \<Rightarrow> string \<Rightarrow> string \<Rightarrow> Record list
    \<Rightarrow> error option \<times> FS \<times> Record list" where
  "cleanupRefField fs mainPath schema tableName fieldName records =
     (let path = filepath_Join [mainPath, schema, tableName @ ''.'' @ fieldName @ ''.data'' @ fileEnding]
      in if os_Stat fs path = ENOENT then (None, fs, records)
         else case os_ReadFile fs path of
                Inl err \<Rightarrow> (Some (wrap ''failed to read ref field file: %v'' [] err), fs, records)
              | Inr refData \<Rightarrow>
                  if list_all (\<lambda>record. RefOffsets record fieldName = None) records then
                    (None, fs, records)
                  else
                    let tempRefPath = path @ ''.temp''
                    in case os_Create fs tempRefPath of
                         Inl err \<Rightarrow>
                           (Some (wrap ''failed to create temporary ref file: %v'' [] err), fs, records)
                       | Inr fs1 \<Rightarrow>
                           (case compact_refs refData fieldName records Map.empty 0 [] of
                              (records', written) \<Rightarrow>
                                let fs2 = fs1(tempRefPath \<mapsto> File written)
                                in case os_Rename fs2 tempRefPath path of
                                     Inl err \<Rightarrow>
                                       (Some (wrap ''failed to replace ref field file: %v'' [] err),
                                        fs2, records')
                                   | Inr fs3 \<Rightarrow> (None, fs3, records')))"

text \<open>
  The last loop of \<open>cleanupTable\<close>: an error of \<open>cleanupRefField\<close> is printed and the
  loop goes on.
\<close>

fun cleanup_ref_fields :: "FS \<Rightarrow> string \<Rightarrow> string \<Rightarrow> string \<Rightarrow> Field list \<Rightarrow> Record list
    \<Rightarrow> FS \<times> Record list" where
  "cleanup_ref_fields fs mainPath schema tableName [] records = (fs, records)"
| "cleanup_ref_fields fs mainPath schema tableName (field # flds) records =
     (if Type field = ''ref'' then
        (case cleanupRefField fs mainPath schema tableName (Name field) records of
           (_, fs', records') \<Rightarrow> cleanup_ref_fields fs' mainPath schema tableName flds records')
      else cleanup_ref_fields fs mainPath schema tableName flds records)"

definition cleanupTable :: "renv \<Rightarrow> FS \<Rightarrow> string \<Rightarrow> string \<Rightarrow> string \<Rightarrow> error option \<times> FS" where
  "cleanupTable env fs mainPath schema tableName =
     (let tableConfPath = filepath_Join [mainPath, schema, tableName @ ''.conf'' @ fileEnding];
          tableDataPath = filepath_Join [mainPath, schema, tableName @ fileEnding]
      in case os_ReadFile fs tableConfPath of
           Inl err \<Rightarrow> (Some (wrap ''failed to read table configuration: %v'' [] err), fs)
         | Inr tableConf \<Rightarrow>
             (case json_Unmarshal env tableConf of
                None \<Rightarrow> (Some (wrap ''failed to parse table configuration: %v'' [] JsonError), fs)
              | Some t0 \<Rightarrow>
                  let t = t0\<lparr>SchemaPath := filepath_Join [mainPath, schema]\<rparr>
                  in case GetAllRecords fs t of
                       Inl err \<Rightarrow> (Some (wrap ''failed to read records: %v'' [] err), fs)
                     | Inr records \<Rightarrow>
                         let currentRecords = filter isCurrentRecord records
                         in if length currentRecords = length records then (None, fs)
                            else
                              let tempDataPath = tableDataPath @ ''.temp''
                              in case os_Create fs tempDataPath of
                                   Inl err \<Rightarrow>
                                     (Some (wrap ''failed to create temporary file: %v'' [] err), fs)
                                 | Inr fs1 \<Rightarrow>
                                     (case write_loop env (Fields t) currentRecords [] of
                                        (Some err, written) \<Rightarrow>
                                          (Some err, fs1(tempDataPath \<mapsto> File written))
                                      | (None, written) \<Rightarrow>
                                          let fs2 = fs1(tempDataPath \<mapsto> File written)
                                          in case os_Rename fs2 tempDataPath tableDataPath of
                                               Inl err \<Rightarrow>
                                                 (Some (wrap ''failed to replace table file: %v'' [] err),
                                                  fs2)
                                             | Inr fs3 \<Rightarrow>
                                                 (None,
                                                  fst (cleanup_ref_fields fs3 mainPath schema
                                                         tableName (Fields t) currentRecords)))))"

section \<open>Queries (Query.go)\<close>

record FilterCondition =
  CondField :: string
  Operator :: string
  Value :: gvalue

record Query =
  qtable :: Table
  limitCount :: int
  sortField :: string
  sortAscending :: bool
  conditions :: "FilterCondition list"

definition Select :: "Table \<Rightarrow> Query" where
  "Select t = \<lparr>qtable = t, limitCount = - 1, sortField = [], sortAscending = True,
               conditions = []\<rparr>"

definition Sort :: "Query \<Rightarrow> string \<Rightarrow> bool \<Rightarrow> Query" where
  "Sort q field ascending = q\<lparr>sortField := field, sortAscending := ascending\<rparr>"

definition Limit :: "Query \<Rightarrow> int \<Rightarrow> Query" where
  "Limit q n = q\<lparr>limitCount := n\<rparr>"

definition Where :: "Query \<Rightarrow> string \<Rightarrow> string \<Rightarrow> gvalue \<Rightarrow> Query" where
  "Where q field operator val =
     q\<lparr>conditions := conditions q @ [\<lparr>CondField = field, Operator = operator, Value = val\<rparr>]\<rparr>"

text \<open>\<open><\<close> on Go strings: byte by byte.\<close>

fun str_less :: "string \<Rightarrow> string \<Rightarrow> bool" where
  "str_less [] [] = False"
| "str_less [] (y # ys) = True"
| "str_less (x # xs) [] = False"
| "str_less (x # xs) (y # ys) =
     (if x = y then str_less xs ys else (of_char x :: nat) < of_char y)"

definition equals :: "gvalue \<Rightarrow> gvalue \<Rightarrow> bool" where
  "equals a b =
     (case a of
        GString aVal \<Rightarrow> (case b of GString bVal \<Rightarrow> aVal = bVal | _ \<Rightarrow> False)
      | GInt aVal \<Rightarrow>
          (case b of
             GInt bVal \<Rightarrow> aVal = bVal
           | GFloat64 bVal \<Rightarrow> f64_eq (float64_of_int aVal) bVal
           | _ \<Rightarrow> False)
      | GFloat64 aVal \<Rightarrow>
          (case b of
             GFloat64 bVal \<Rightarrow> f64_eq aVal bVal
           | GInt bVal \<Rightarrow> f64_eq aVal (float64_of_int bVal)
           | _ \<Rightarrow> False)
      | GBool aVal \<Rightarrow> (case b of GBool bVal \<Rightarrow> aVal = bVal | _ \<Rightarrow> False)
      | _ \<Rightarrow> False)"

definition greaterThan :: "gvalue \<Rightarrow> gvalue \<Rightarrow> bool" where
  "greaterThan a b =
     (case a of
        GString aVal \<Rightarrow> (case b of GString bVal \<Rightarrow> str_less bVal aVal | _ \<Rightarrow> False)
      | GInt aVal \<Rightarrow>
          (case b of
             GInt bVal \<Rightarrow> sint bVal < sint aVal
           | GFloat64 bVal \<Rightarrow> f64_lt bVal (float64_of_int aVal)
           | _ \<Rightarrow> False)
      | GFloat64 aVal \<Rightarrow>
          (case b of
             GFloat64 bVal \<Rightarrow> f64_lt bVal aVal
           | GInt bVal \<Rightarrow> f64_lt (float64_of_int bVal) aVal
           | _ \<Rightarrow> False)
      | _ \<Rightarrow> False)"

definition greaterThanOrEqual :: "gvalue \<Rightarrow> gvalue \<Rightarrow> bool" where
  "greaterThanOrEqual a b = (greaterThan a b \<or> equals a b)"

definition lessThan :: "gvalue \<Rightarrow> gvalue \<Rightarrow> bool" where
  "lessThan a b =
     (case a of
        GString aVal \<Rightarrow> (case b of GString bVal \<Rightarrow> str_less aVal bVal | _ \<Rightarrow> False)
      | GInt aVal \<Rightarrow>
          (case b of
             GInt bVal \<Rightarrow> sint aVal < sint bVal
           | GFloat64 bVal \<Rightarrow> f64_lt (float64_of_int aVal) bVal
           | _ \<Rightarrow> False)
      | GFloat64 aVal \<Rightarrow>
          (case b of
             GFloat64 bVal \<Rightarrow> f64_lt aVal bVal
           | GInt bVal \<Rightarrow> f64_lt aVal (float64_of_int bVal)
           | _ \<Rightarrow> False)
      | _ \<Rightarrow> False)"

definition lessThanOrEqual :: "gvalue \<Rightarrow> gvalue \<Rightarrow> bool" where
  "lessThanOrEqual a b = (lessThan a b \<or> equals a b)"

fun matchesConditions :: "Record \<Rightarrow> FilterCondition list \<Rightarrow> bool" where
  "matchesConditions record [] = True"
| "matchesConditions record (condition # conds) =
     (case FieldsData record (CondField condition) of
        None \<Rightarrow> False
      | Some fieldValue \<Rightarrow>
          if Operator condition = ''='' then
            (if equals fieldValue (Value condition) then matchesConditions record conds else False)
          else if Operator condition = ''!='' then
            (if equals fieldValue (Value condition) then False else matchesConditions record conds)
          else if Operator condition = ''>'' then
            (if greaterThan fieldValue (Value condition) then matchesConditions record conds
             else False)
          else if Operator condition = ''>='' then
            (if greaterThanOrEqual fieldValue (Value condition) then matchesConditions record conds
             else False)
          else if Operator condition = ''<'' then
            (if lessThan fieldValue (Value condition) then matchesConditions record conds else False)
          else if Operator condition = ''<='' then
            (if lessThanOrEqual fieldValue (Value condition) then matchesConditions record conds
             else False)
          else False)"

text \<open>\<open>fmt.Sprintf("%v", v)\<close>.\<close>

definition Sprintf_v :: "renv \<Rightarrow> gvalue \<Rightarrow> string" where
  "Sprintf_v env v =
     (case v of
        GNil \<Rightarrow> ''<nil>''
      | GInt i \<Rightarrow> show_int (sint i)
      | GInt64 i \<Rightarrow> show_int (sint i)
      | GFloat64 f \<Rightarrow> fmt_float64 env f
      | GString s \<Rightarrow> s
      | GBool b \<Rightarrow> (if b then ''true'' else ''false''))"

text \<open>
  The closure \<open>less\<close> of \<open>sortRecords\<close>, on the two records it reads. A type assertion
  that fails leaves the zero value of the type.
\<close>

definition lessFn :: "renv \<Rightarrow> string \<Rightarrow> bool \<Rightarrow> Record \<Rightarrow> Record \<Rightarrow> bool" where
  "lessFn env field ascending ri rj =
     (case FieldsData ri field of
        None \<Rightarrow> False
      | Some valI \<Rightarrow>
          (case FieldsData rj field of
             None \<Rightarrow> True
           | Some valJ \<Rightarrow>
               let result =
                 (case valI of
                    GString strI \<Rightarrow> str_less strI (case valJ of GString strJ \<Rightarrow> strJ | _ \<Rightarrow> [])
                  | GInt intI \<Rightarrow> sint intI < sint (case valJ of GInt intJ \<Rightarrow> intJ | _ \<Rightarrow> 0)
                  | GFloat64 floatI \<Rightarrow> f64_lt floatI (case valJ of GFloat64 floatJ \<Rightarrow> floatJ | _ \<Rightarrow> 0)
                  | _ \<Rightarrow> str_less (Sprintf_v env valI) (Sprintf_v env valJ))
               in if ascending then result else \<not> result))"

text \<open>
  \<open>sort.Slice\<close> of the Go standard library. Up to 12 elements it is an insertion sort:
  each element in turn moves left while \<open>less\<close> says it is less than its left neighbour.
  \<open>sift\<close> takes the sorted prefix with its last element first.
\<close>

fun sift :: "('a \<Rightarrow> 'a \<Rightarrow> bool) \<Rightarrow> 'a \<Rightarrow> 'a list \<Rightarrow> 'a list" where
  "sift lt x [] = [x]"
| "sift lt x (y # ys) = (if lt x y then y # sift lt x ys else x # y # ys)"

definition insertionSort :: "('a \<Rightarrow> 'a \<Rightarrow> bool) \<Rightarrow> 'a list \<Rightarrow> 'a list" where
  "insertionSort lt xs = rev (fold (sift lt) xs [])"

definition sort_Slice :: "renv \<Rightarrow> (Record \<Rightarrow> Record \<Rightarrow> bool) \<Rightarrow> Record list \<Rightarrow> Record list" where
  "sort_Slice env lt xs = (if length xs \<le> 12 then insertionSort lt xs else sort_large env lt xs)"

definition sortRecords :: "renv \<Rightarrow> Record list \<Rightarrow> string \<Rightarrow> bool \<Rightarrow> Record list" where
  "sortRecords env records field ascending = sort_Slice env (lessFn env field ascending) records"

definition GetAll :: "renv \<Rightarrow> FS \<Rightarrow> Query \<Rightarrow> error + Record list" where
  "GetAll env fs q =
     (case GetAllRecords fs (qtable q) of
        Inl err \<Rightarrow> Inl err
      | Inr records \<Rightarrow>
          let currentRecords = filter isCurrentRecord records;
              currentRecords =
                (if conditions q \<noteq> []
                 then filter (\<lambda>record. matchesConditions record (conditions q)) currentRecords
                 else currentRecords);
              currentRecords =
                (if sortField q \<noteq> [] then sortRecords env currentRecords (sortField q) (sortAscending q)
                 else currentRecords)
          in if 0 < limitCount q \<and> limitCount q < int (length currentRecords)
             then Inr (take (nat (limitCount q)) currentRecords)
             else Inr currentRecords)"

section \<open>Example databases\<close>

text \<open>
  A database at \<open>/data\<close> with the schema \<open>testSchema\<close> and one table \<open>t\<close>, which has the
  implicit id and one more field. The configuration file holds \<open>exConf\<close>, which the
  example environment decodes to the table.
\<close>

definition exTable :: "Field \<Rightarrow> Table" where
  "exTable fld = \<lparr>TableName = ''t'', Fields = [timePKField, fld],
                  SchemaPath = ''/data/testSchema''\<rparr>"

definition exConf :: "byte list" where
  "exConf = map of_char ''{}''"

definition exEnv :: "Field \<Rightarrow> renv" where
  "exEnv fld = \<lparr>json_Unmarshal = (\<lambda>bs. if bs = exConf then Some (exTable fld) else None),
                float_to_uint64_impl = (\<lambda>v. 0), fmt_float64 = (\<lambda>v. []),
                sort_large = (\<lambda>lt xs. xs)\<rparr>"

definition exFS :: FS where
  "exFS = [''/data'' \<mapsto> Dir, ''/data/testSchema'' \<mapsto> Dir,
           ''/data/testSchema/t.htdb'' \<mapsto> File [],
           ''/data/testSchema/t.conf.htdb'' \<mapsto> File exConf]"

definition intField :: "string \<Rightarrow> Field" where
  "intField name = \<lparr>Name = name, Type = IntT, Length = 8, Constraints = []\<rparr>"

definition floatField :: "string \<Rightarrow> Field" where
  "floatField name = \<lparr>Name = name, Type = FloatT, Length = 8, Constraints = []\<rparr>"

definition refField :: "string \<Rightarrow> Field" where
  "refField name = \<lparr>Name = name, Type = ''ref'', Length = 128, Constraints = []\<rparr>"

text \<open>
  One transaction that stages a single insert, update or delete and commits, with the
  values of the two counters and of the clock it finds.
\<close>

definition insert_tx :: "renv \<Rightarrow> FS \<Rightarrow> 64 word \<Rightarrow> 64 word \<Rightarrow> 64 word \<Rightarrow> Table
    \<Rightarrow> (string \<rightharpoonup> gvalue) \<Rightarrow> error option \<times> FS" where
  "insert_tx env fs transactionCounter recordIDCounter now t data =
     (case StageInsert fs recordIDCounter now (fst (NewTransaction ''/data'' transactionCounter))
             t data of
        (Inl err, fs', _, _) \<Rightarrow> (Some err, fs')
      | (Inr _, fs', _, tx') \<Rightarrow> (case Commit env fs' tx' of (res, fs'', _) \<Rightarrow> (res, fs'')))"

definition update_tx :: "renv \<Rightarrow> FS \<Rightarrow> 64 word \<Rightarrow> 64 word \<Rightarrow> Table \<Rightarrow> Record
    \<Rightarrow> (string \<times> gvalue) list \<Rightarrow> error option \<times> FS" where
  "update_tx env fs transactionCounter now t record updates =
     (case StageUpdate fs now (fst (NewTransaction ''/data'' transactionCounter)) t record updates of
        (Inl err, fs', _, _) \<Rightarrow> (Some err, fs')
      | (Inr _, fs', tx', _) \<Rightarrow> (case Commit env fs' tx' of (res, fs'', _) \<Rightarrow> (res, fs'')))"

definition delete_tx :: "renv \<Rightarrow> FS \<Rightarrow> 64 word \<Rightarrow> 64 word \<Rightarrow> Table \<Rightarrow> Record
    \<Rightarrow> error option \<times> FS" where
  "delete_tx env fs transactionCounter now t record =
     (case StageDelete now (fst (NewTransaction ''/data'' transactionCounter)) t record of
        (Some err, _, _) \<Rightarrow> (Some err, fs)
      | (None, tx', _) \<Rightarrow> (case Commit env fs tx' of (res, fs', _) \<Rightarrow> (res, fs')))"

text \<open>What is read of a list of records: id, is_current, is_deleted and one field.\<close>

definition view :: "string \<Rightarrow> error + Record list
    \<Rightarrow> error + (64 word \<times> bool \<times> bool \<times> gvalue option) list" where
  "view field res =
     map_sum id (map (\<lambda>r. (ID r, IsCurrent (Metadata r), IsDeleted (Metadata r),
                            FieldsData r field))) res"

text \<open>Update supersedes: insert \<open>val = 1\<close>, read the record back, update it to \<open>val = 2\<close>.\<close>

definition fs_inserted :: FS where
  "fs_inserted = snd (insert_tx (exEnv (intField ''val'')) exFS 0 0 100
                        (exTable (intField ''val'')) [''val'' \<mapsto> GInt 1])"

definition fs_updated :: FS where
  "fs_updated =
     (case GetAllRecords fs_inserted (exTable (intField ''val'')) of
        Inr [r] \<Rightarrow> snd (update_tx (exEnv (intField ''val'')) fs_inserted 1 200
                          (exTable (intField ''val'')) r [(''val'', GInt 2)])
      | _ \<Rightarrow> fs_inserted)"

text \<open>A record with the float field \<open>x = 1.5\<close>.\<close>

definition float_record :: Record where
  "float_record = NewRecord 7 [''x'' \<mapsto> GFloat64 0x3FF8000000000000]"






text \<open>
  The data directory with the schema and no table file, and a data directory in which the
  path of the schema is a regular file.
\<close>

definition fs_no_table :: FS where
  "fs_no_table = [''/data'' \<mapsto> Dir, ''/data/testSchema'' \<mapsto> Dir]"

definition fs_schema_is_file :: FS where
  "fs_schema_is_file = [''/data'' \<mapsto> Dir, ''/data/testSchema'' \<mapsto> File []]"

text \<open>
  Inserting a list of rows, each in a transaction of its own: the \<open>k\<close>-th insert finds
  both counters at \<open>k\<close> and the clock at \<open>100 * (k + 1)\<close>.
\<close>

fun insert_all :: "renv \<Rightarrow> FS \<Rightarrow> 64 word \<Rightarrow> Table \<Rightarrow> (string \<rightharpoonup> gvalue) list \<Rightarrow> FS" where
  "insert_all env fs k t [] = fs"
| "insert_all env fs k t (data # rest) =
     insert_all env (snd (insert_tx env fs k k (100 * (k + 1)) t data)) (k + 1) t rest"

text \<open>The query scenario: \<open>n = 3, 1, 4, 1, 5, 9, 2\<close>, then \<open>n >= 2\<close> sorted, three rows.\<close>

definition fs_seven :: FS where
  "fs_seven = insert_all (exEnv (intField ''n'')) exFS 0 (exTable (intField ''n''))
                (map (\<lambda>n. [''n'' \<mapsto> GInt n]) [3, 1, 4, 1, 5, 9, 2])"

definition query_n :: Query where
  "query_n = Limit (Sort (Where (Select (exTable (intField ''n''))) ''n'' ''>='' (GInt 2))
                      ''n'' True) 3"

text \<open>
  The compaction scenario: bodies \<open>aaa\<close>, \<open>bbb\<close>, \<open>ccc\<close> are inserted, the first and the
  third record are deleted, and the table is cleaned up.
\<close>

definition sidecar :: string where
  "sidecar = ''/data/testSchema/t.body.data.htdb''"

definition fs_three :: FS where
  "fs_three = insert_all (exEnv (refField ''body'')) (exFS(sidecar \<mapsto> File [])) 0
                (exTable (refField ''body''))
                (map (\<lambda>s. [''body'' \<mapsto> GString s]) [''aaa'', ''bbb'', ''ccc''])"

definition fs_deleted :: FS where
  "fs_deleted =
     (case GetAllRecords fs_three (exTable (refField ''body'')) of
        Inr [r1, r2, r3] \<Rightarrow>
          snd (delete_tx (exEnv (refField ''body''))
                 (snd (delete_tx (exEnv (refField ''body'')) fs_three 3 400
                         (exTable (refField ''body'')) r1))
                 4 500 (exTable (refField ''body'')) r3)
      | _ \<Rightarrow> fs_three)"

definition fs_cleaned :: FS where
  "fs_cleaned = snd (cleanupTable (exEnv (refField ''body'')) fs_deleted ''/data'' ''testSchema'' ''t'')"

text \<open>
  The same rows staged and the first and the third deleted in one transaction, which is
  then committed, and the cleanup of that table.
\<close>

definition fs_batch :: FS where
  "fs_batch =
     (let env = exEnv (refField ''body''); t = exTable (refField ''body'');
          tx0 = fst (NewTransaction ''/data'' 0)
      in case StageInsert (exFS(sidecar \<mapsto> File [])) 0 100 tx0 t [''body'' \<mapsto> GString ''aaa''] of
           (Inr r1, fs1, c1, tx1) \<Rightarrow>
             (case StageInsert fs1 c1 200 tx1 t [''body'' \<mapsto> GString ''bbb''] of
                (Inr r2, fs2, c2, tx2) \<Rightarrow>
                  (case StageInsert fs2 c2 300 tx2 t [''body'' \<mapsto> GString ''ccc''] of
                     (Inr r3, fs3, c3, tx3) \<Rightarrow>
                       (case StageDelete 400 tx3 t r1 of
                          (_, tx4, _) \<Rightarrow>
                            (case StageDelete 500 tx4 t r3 of
                               (_, tx5, _) \<Rightarrow> fst (snd (Commit env fs3 tx5))))
                   | (_, fs3, _, _) \<Rightarrow> fs3)
              | (_, fs2, _, _) \<Rightarrow> fs2)
         | (_, fs1, _, _) \<Rightarrow> fs1)"

definition fs_batch_cleaned :: FS where
  "fs_batch_cleaned =
     snd (cleanupTable (exEnv (refField ''body'')) fs_batch ''/data'' ''testSchema'' ''t'')"

text \<open>What is read of a list of records: id, is_current, is_deleted and the offsets of a ref field.\<close>

definition view_refs :: "string \<Rightarrow> error + Record list
    \<Rightarrow> error + (64 word \<times> bool \<times> bool \<times> (64 word \<times> 64 word) option) list" where
  "view_refs field res =
     map_sum id (map (\<lambda>r. (ID r, IsCurrent (Metadata r), IsDeleted (Metadata r),
                            RefOffsets r field))) res"

text \<open>Reading the ref field of every record of the table.\<close>

definition read_bodies :: "FS \<Rightarrow> (error + string) list" where
  "read_bodies fs =
     (case GetAllRecords fs (exTable (refField ''body'')) of
        Inl err \<Rightarrow> [Inl err]
      | Inr rs \<Rightarrow> map (\<lambda>r. ReadRefData fs r ''/data/testSchema'' ''t'' ''body'') rs)"





section \<open>Properties of the codec\<close>

text \<open>
  C3. The claim: a float field is stored as the exact IEEE-754 bit pattern of its value and
  decoding reverses encoding on it. The code converts the value to an integer instead
  (\<open>uint64(v)\<close>, and \<open>float64(bits)\<close> on the way back): the record with \<open>x = 1.5\<close>
  (bit pattern \<open>0x3FF8000000000000\<close>) is encoded with the integer 1 in the cell of \<open>x\<close>,
  which differs from the bytes of the bit pattern, and decodes to \<open>x = 1.0\<close>
  (\<open>0x3FF0000000000000\<close>).
\<close>

theorem float_cell_is_truncated:
  "Serialize env float_record [timePKField, floatField ''x'']
     = Inr (le_bytes 8 7 @ [1, 0, 0, 0] @ [0] @ le_bytes 8 1)
   \<and> le_bytes 8 1 \<noteq> le_bytes 8 0x3FF8000000000000
   \<and> map_sum id (\<lambda>r. FieldsData r ''x'')
        (DeserializeRecord (le_bytes 8 7 @ [1, 0, 0, 0] @ [0] @ le_bytes 8 1)
           [timePKField, floatField ''x''])
      = Inr (Some (GFloat64 0x3FF0000000000000))
   \<and> FieldsData float_record ''x'' = Some (GFloat64 0x3FF8000000000000)"
  by code_simp

lemma DeserializeRecord_header_too_short:
  "length data < 12 \<Longrightarrow>
     DeserializeRecord data flds = Inl (Errorf ''data too short to be a valid record'' [])"
  by (simp add: DeserializeRecord_def DeserializeSlice_def)

lemma short_buffer_view:
  "map_sum id ID (DeserializeRecord (replicate 12 0) [timePKField, intField ''val''])
     = Inl RuntimePanic"
  by code_simp

lemma short_buffer_null_view:
  "map_sum id ID (DeserializeRecord (replicate 12 0 @ [1]) [timePKField, intField ''val''])
     = Inr 0"
  by code_simp

text \<open>
  C5. The claim: on every buffer shorter than the record size the decoder returns an
  error. The decoder checks the 12 bytes of the header only. For a table with an int field
  the record size is 21: on a buffer of 12 bytes the decoder reads the null flag of the
  field at index 12 and panics, and on a buffer of 13 bytes whose null flag is set it
  returns a record.
\<close>

theorem short_buffer_not_rejected:
  "recordSize [timePKField, intField ''val''] = 21
   \<and> DeserializeRecord (replicate 12 0) [timePKField, intField ''val''] = Inl RuntimePanic
   \<and> map_sum id ID (DeserializeRecord (replicate 12 0 @ [1]) [timePKField, intField ''val''])
       = Inr 0"
proof -
  have "recordSize [timePKField, intField ''val''] = 21"
    by code_simp
  moreover have "DeserializeRecord (replicate 12 0) [timePKField, intField ''val'']
      = Inl RuntimePanic"
    using short_buffer_view
    by (cases "DeserializeRecord (replicate 12 0) [timePKField, intField ''val'']") auto
  ultimately show ?thesis
    using short_buffer_null_view by simp
qed

section \<open>Properties of tables\<close>

lemma schema_is_file_view:
  "os_Stat fs_schema_is_file (tablePath (exTable (intField ''val''))) = ENOTDIR
   \<and> fs_schema_is_file (tablePath (exTable (intField ''val''))) = None
   \<and> map_sum id (map ID) (GetAllRecords fs_schema_is_file (exTable (intField ''val'')))
       = Inl (Errorf ''failed to read table file: %v''
                [ArgE (OsError ''/data/testSchema/t.htdb'')])"
  by code_simp

text \<open>
  C10, as the claim states it: for every table whose data file does not exist, reading all
  records gives the empty list and no error. Where the path of the schema is a regular
  file the data file does not exist, but \<open>os.Stat\<close> fails with an error that
  \<open>os.IsNotExist\<close> does not accept: the code goes on to read the file and returns the
  error of the read.
\<close>

theorem GetAllRecords_under_a_file_fails:
  "os_Stat fs_schema_is_file (tablePath (exTable (intField ''val''))) = ENOTDIR
   \<and> fs_schema_is_file (tablePath (exTable (intField ''val''))) = None
   \<and> GetAllRecords fs_schema_is_file (exTable (intField ''val''))
       = Inl (Errorf ''failed to read table file: %v''
                [ArgE (OsError ''/data/testSchema/t.htdb'')])"
proof -
  have "GetAllRecords fs_schema_is_file (exTable (intField ''val''))
      = Inl (Errorf ''failed to read table file: %v''
               [ArgE (OsError ''/data/testSchema/t.htdb'')])"
    using schema_is_file_view
    by (cases "GetAllRecords fs_schema_is_file (exTable (intField ''val''))") auto
  then show ?thesis
    using schema_is_file_view by blast
qed

text \<open>
  C10, amended: for every table whose data file \<open>os.Stat\<close> reports as not existing (the
  file, or a directory above it, is missing), reading all records gives the empty list and
  no error, as reading a table with an empty data file does.
\<close>

theorem GetAllRecords_missing_file:
  "os_Stat fs (tablePath t) = ENOENT \<or> os_Stat fs (tablePath t) = Found (File []) \<Longrightarrow>
     GetAllRecords fs t = Inr []"
  by (auto simp: GetAllRecords_def os_ReadFile_def parse_records.simps)

lemma no_table_stat:
  "os_Stat fs_no_table (tablePath (exTable (intField ''val''))) = ENOENT
   \<and> os_Stat exFS (tablePath (exTable (intField ''val''))) = Found (File [])"
  by code_simp

theorem GetAllRecords_missing_file_witness:
  "os_Stat fs_no_table (tablePath (exTable (intField ''val''))) = ENOENT
   \<and> GetAllRecords fs_no_table (exTable (intField ''val'')) = Inr []
   \<and> os_Stat exFS (tablePath (exTable (intField ''val''))) = Found (File [])
   \<and> GetAllRecords exFS (exTable (intField ''val'')) = Inr []"
  using GetAllRecords_missing_file [of fs_no_table "exTable (intField ''val'')"]
    GetAllRecords_missing_file [of exFS "exTable (intField ''val'')"] no_table_stat
  by simp

lemma split_on_none: "c \<notin> set s \<Longrightarrow> split_on c s cur = [rev cur @ s]"
  by (induction s arbitrary: cur) auto

lemma split_on_first:
  "c \<notin> set s \<Longrightarrow> split_on c (s @ c # s') cur = (rev cur @ s) # split_on c s' []"
  by (induction s arbitrary: cur) auto

text \<open>
  C9, as the claim states it: a table name without a schema is rejected. It is not: the
  bare name \<open>t\<close> is looked up in the schema \<open>testSchema\<close> and the table is returned.
\<close>

theorem GetTable_bare_name_resolves:
  "CHR '':'' \<notin> set ''t''
   \<and> GetTable (exEnv (intField ''val'')) exFS ''t'' ''/data'' = Inr (exTable (intField ''val''))"
  by code_simp

text \<open>
  C9, amended: for a table name without a schema, table lookup resolves the name in the
  default schema \<open>testSchema\<close>: it does what the lookup of \<open>testSchema:name\<close> does.
\<close>

theorem GetTable_default_schema:
  "CHR '':'' \<notin> set name \<Longrightarrow>
     GetTable env fs name mainPath = GetTable env fs (''testSchema:'' @ name) mainPath"
proof -
  assume a: "CHR '':'' \<notin> set name"
  have 1: "strings_Split name (CHR '':'') = [name]"
    using a by (simp add: strings_Split_def split_on_none)
  have "strings_Split (''testSchema'' @ CHR '':'' # name) (CHR '':'') = [''testSchema'', name]"
    unfolding strings_Split_def using a
    by (subst split_on_first) (simp_all add: split_on_none)
  then have 2: "strings_Split (''testSchema:'' @ name) (CHR '':'') = [''testSchema'', name]"
    by simp
  show ?thesis
    unfolding GetTable_def 1 2 by simp
qed

theorem GetTable_default_schema_witness:
  "CHR '':'' \<notin> set ''t''
   \<and> GetTable (exEnv (intField ''val'')) exFS ''t'' ''/data''
       = GetTable (exEnv (intField ''val'')) exFS ''testSchema:t'' ''/data''"
  using GetTable_default_schema [of "''t''" "exEnv (intField ''val'')" exFS "''/data''"] by simp

section \<open>Properties of transactions\<close>

text \<open>
  \<open>Commit\<close> changes no existing record when no staged record carries the id of an
  existing one.
\<close>

lemma demote_for_no_match:
  "\<forall>e \<in> set existing. \<not> iface_eq (lookup_nil (FieldsData e) ''id'')
                                    (lookup_nil (FieldsData staged) ''id'')
   \<Longrightarrow> demote_for staged existing = existing"
  by (simp add: demote_for_def map_idI)

lemma demote_all_no_match:
  "\<forall>s \<in> set records. \<forall>e \<in> set existing.
      \<not> iface_eq (lookup_nil (FieldsData e) ''id'') (lookup_nil (FieldsData s) ''id'')
   \<Longrightarrow> demote_all records existing = existing"
  by (induction records arbitrary: existing) (simp_all add: demote_for_no_match)

text \<open>
  C1. The claim: after a staged update is committed, the old and the new version are in the
  table file and exactly one of them is current. \<open>Commit\<close> looks for an existing record
  with the id of the staged one, and \<open>Clone\<close> has given the staged record a new id: no
  existing record is demoted. After the insert of \<open>val = 1\<close> (id 101) and the update to
  \<open>val = 2\<close> at clock 200, both versions are in the file with \<open>is_current = true\<close>.
\<close>

theorem update_leaves_two_current_versions:
  "view ''val'' (GetAllRecords fs_inserted (exTable (intField ''val'')))
     = Inr [(101, True, False, Some (GInt64 1))]
   \<and> view ''val'' (GetAllRecords fs_updated (exTable (intField ''val'')))
     = Inr [(101, True, False, Some (GInt64 1)), (200, True, False, Some (GInt64 2))]"
  by code_simp

text \<open>A clone is not current; the record that \<open>StageInsert\<close> returns always is.\<close>

lemma Clone_not_current: "Clone now tx r = Inr c \<Longrightarrow> \<not> IsCurrent (Metadata c)"
  by (auto simp: Clone_def Let_def split: if_splits)

lemma WriteRefData_Metadata:
  "WriteRefData fs r schema tableName fieldName v = (res, fs', r') \<Longrightarrow> Metadata r' = Metadata r"
  by (auto simp: WriteRefData_def Let_def split: sum.splits prod.splits)

lemma insert_refs_Metadata:
  "insert_refs fs t data r flds = (res, fs', r') \<Longrightarrow> Metadata r' = Metadata r"
proof (induction flds arbitrary: fs r)
  case Nil
  then show ?case by simp
next
  case (Cons field flds)
  then show ?case
    by (auto split: if_splits option.splits gvalue.splits prod.splits dest: WriteRefData_Metadata)
qed

lemma StageInsert_current:
  "StageInsert fs c now tx t data = (Inr r, fs', c', tx') \<Longrightarrow> IsCurrent (Metadata r)"
  by (auto simp: StageInsert_def Let_def NewRecord_def split: if_splits prod.splits option.splits
      dest!: insert_refs_Metadata)

text \<open>
  C6. The claim: every staged record has \<open>is_current = false\<close> until commit. \<open>StageInsert\<close>
  stages the record of \<open>NewRecord\<close>, whose \<open>IsCurrent\<close> is true, and does not clear it
  (\<open>Clone\<close>, on the update and delete paths, does): the record staged by an insert is
  current while its transaction is active.
\<close>

theorem stage_insert_is_current:
  "(case StageInsert exFS 0 100 (fst (NewTransaction ''/data'' 0)) (exTable (intField ''val''))
           [''val'' \<mapsto> GInt 1] of
      (Inr r, _, _, tx') \<Rightarrow>
        IsCurrent (Metadata r) \<and> Status tx' = TransactionActive
        \<and> map (\<lambda>(n, rs). (n, map (\<lambda>r. IsCurrent (Metadata r)) rs)) (StagedRecords tx')
            = [(''t'', [True])]
    | _ \<Rightarrow> False)"
  by code_simp





section \<open>Properties of the cleanup worker\<close>

lemma cleaned_records:
  "view_refs ''body'' (GetAllRecords fs_cleaned (exTable (refField ''body'')))
     = Inr [(101, True, False, Some (0, 0)), (202, True, False, Some (0, 0)),
            (303, True, False, Some (0, 0))]"
  by code_simp

lemma cleaned_sidecar: "fs_cleaned sidecar = Some (File [])"
  by code_simp

lemma cleaned_bodies: "read_bodies fs_cleaned = [Inr [], Inr [], Inr []]"
  by code_simp

lemma batch_bodies:
  "read_bodies fs_batch = [Inr ''aaa'', Inr ''bbb'', Inr ''ccc'', Inr ''aaa'', Inr ''ccc'']"
  by code_simp

lemma batch_cleaned_records:
  "view_refs ''body'' (GetAllRecords fs_batch_cleaned (exTable (refField ''body'')))
     = Inr [(101, True, False, Some (0, 0)), (202, True, False, Some (0, 0)),
            (303, True, False, Some (0, 0))]"
  by code_simp

lemma batch_cleaned_sidecar: "fs_batch_cleaned sidecar = Some (File (map of_char ''aaabbbccc''))"
  by code_simp

lemma batch_cleaned_bodies: "read_bodies fs_batch_cleaned = [Inr [], Inr [], Inr []]"
  by code_simp

text \<open>
  C2. The claim: after cleanup the sidecar holds the bytes that the retained records
  reference, and the offsets read back from the table file address the payload; after
  inserting \<open>aaa\<close>, \<open>bbb\<close>, \<open>ccc\<close>, deleting the first and the third and cleaning up, the
  sidecar has length 3 and the surviving record has the offsets \<open>[0,3]\<close>. In the code,
  with one transaction for each operation, all three records survive the cleanup (a
  delete adds a tombstone and demotes nothing), their offsets in the table file are
  \<open>[0,0]\<close> (a record read from the file has no value for its ref field, and \<open>Serialize\<close>
  writes the cell of a field without a value as zeros) and the sidecar is empty. With the
  three inserts and the two deletes in one transaction the payloads are readable before
  the cleanup; after it the sidecar holds all nine bytes and the offsets in the table
  file are \<open>[0,0]\<close>, which read back the empty string.
\<close>

theorem cleanup_loses_ref_offsets:
  "view_refs ''body'' (GetAllRecords fs_cleaned (exTable (refField ''body'')))
     = Inr [(101, True, False, Some (0, 0)), (202, True, False, Some (0, 0)),
            (303, True, False, Some (0, 0))]
   \<and> fs_cleaned sidecar = Some (File [])
   \<and> read_bodies fs_cleaned = [Inr [], Inr [], Inr []]
   \<and> read_bodies fs_batch = [Inr ''aaa'', Inr ''bbb'', Inr ''ccc'', Inr ''aaa'', Inr ''ccc'']
   \<and> view_refs ''body'' (GetAllRecords fs_batch_cleaned (exTable (refField ''body'')))
     = Inr [(101, True, False, Some (0, 0)), (202, True, False, Some (0, 0)),
            (303, True, False, Some (0, 0))]
   \<and> fs_batch_cleaned sidecar = Some (File (map of_char ''aaabbbccc''))
   \<and> read_bodies fs_batch_cleaned = [Inr [], Inr [], Inr []]"
  using cleaned_records cleaned_sidecar cleaned_bodies batch_bodies batch_cleaned_records
    batch_cleaned_sidecar batch_cleaned_bodies
  by blast

section \<open>Properties of queries\<close>

text \<open>No comparison of the query evaluator holds of a stored \<open>int64\<close>.\<close>

lemma int64_compares_false:
  "\<not> equals (GInt64 v) b \<and> \<not> greaterThan (GInt64 v) b \<and> \<not> lessThan (GInt64 v) b
   \<and> \<not> greaterThanOrEqual (GInt64 v) b \<and> \<not> lessThanOrEqual (GInt64 v) b"
  by (simp add: equals_def greaterThan_def lessThan_def greaterThanOrEqual_def
      lessThanOrEqual_def)

lemma seven_rows:
  "view ''n'' (GetAllRecords fs_seven (exTable (intField ''n'')))
     = Inr [(101, True, False, Some (GInt64 3)), (202, True, False, Some (GInt64 1)),
            (303, True, False, Some (GInt64 4)), (404, True, False, Some (GInt64 1)),
            (505, True, False, Some (GInt64 5)), (606, True, False, Some (GInt64 9)),
            (707, True, False, Some (GInt64 2))]"
  by code_simp

lemma query_n_view: "view ''n'' (GetAll (exEnv (intField ''n'')) fs_seven query_n) = Inr []"
  by code_simp

text \<open>
  C4. The claim: after inserting \<open>n = 3, 1, 4, 1, 5, 9, 2\<close> the query \<open>n >= 2\<close>, sorted
  ascending, limit 3, returns \<open>n = 2, 3, 4\<close>. The values read back from the table file are
  \<open>int64\<close>, and \<open>equals\<close> and \<open>greaterThan\<close> have cases for \<open>string\<close>, \<open>int\<close>, \<open>float64\<close>
  and \<open>bool\<close> only: every comparison with a stored integer is false, and the query returns
  no record.
\<close>

theorem query_on_int_field_is_empty:
  "view ''n'' (GetAllRecords fs_seven (exTable (intField ''n'')))
     = Inr [(101, True, False, Some (GInt64 3)), (202, True, False, Some (GInt64 1)),
            (303, True, False, Some (GInt64 4)), (404, True, False, Some (GInt64 1)),
            (505, True, False, Some (GInt64 5)), (606, True, False, Some (GInt64 9)),
            (707, True, False, Some (GInt64 2))]
   \<and> GetAll (exEnv (intField ''n'')) fs_seven query_n = Inr []"
proof -
  have "GetAll (exEnv (intField ''n'')) fs_seven query_n = Inr []"
    using query_n_view
    by (cases "GetAll (exEnv (intField ''n'')) fs_seven query_n") (auto simp: view_def)
  then show ?thesis
    using seven_rows by blast
qed





















end
